theory Spec2Isabelle
  imports Main "HOL-Library.Word"
begin

unbundle bit_operations_syntax

section \<open>Bytes, buffers and decoding errors\<close>

text \<open>
  A \<^verbatim>\<open>Buffer\<close> is a list of bytes. The fields of a command are JavaScript numbers;
  they are modelled as \<open>int\<close> (fractions are left out), and \<^verbatim>\<open>Buffer.from(array)\<close>
  keeps the low eight bits of every element.
\<close>

type_synonym byte = "8 word"

type_synonym Buffer = "byte list"

definition Buffer_from :: "int list \<Rightarrow> Buffer" where
  "Buffer_from xs = map word_of_int xs"

datatype error =
    MalformedCC
  | WrongValueType
  | UnsupportedProperty
  | InvalidArgument

text \<open>
  Modelled from the spec: \<^verbatim>\<open>validatePayload\<close> of \<^verbatim>\<open>@zwave-js/core\<close>, which
  \<^verbatim>\<open>MultilevelSwitchCC.ts\<close> imports. The spec: "A strict
  validatePayload(condition) assertion is used at every boundary; failure yields MalformedCC
  and aborts decoding without partial state." The continuation \<open>k\<close> is the rest of the
  constructor.
\<close>

definition validatePayload :: "bool \<Rightarrow> (error + 'a) \<Rightarrow> (error + 'a)" where
  "validatePayload condition k = (if condition then k else Inl MalformedCC)"

section \<open>MultilevelSwitchCC commands\<close>

text \<open>
  The class \<^verbatim>\<open>Duration\<close> and the helpers \<^verbatim>\<open>parseMaybeNumber\<close> and \<^verbatim>\<open>parseNumber\<close> live in
  \<^verbatim>\<open>@zwave-js/core\<close>. Every function below takes the ones it calls as arguments:
  \<open>parseReport\<close> and \<open>parseSet\<close> stand for \<^verbatim>\<open>Duration.parseReport\<close> and
  \<^verbatim>\<open>Duration.parseSet\<close> (a byte to \<^verbatim>\<open>Duration | undefined\<close>), \<open>serializeSet\<close> for
  \<^verbatim>\<open>Duration.serializeSet\<close> (a duration to a number). The type \<open>'d\<close> is the type of
  durations. \<open>version\<close> is \<^verbatim>\<open>this.version\<close>, the version of the command class that the
  host reports for the node.
\<close>

subsection \<open>MultilevelSwitchCCSet\<close>

record 'd MultilevelSwitchCCSet =
  set_targetValue :: int
  set_duration :: "'d option"

definition MultilevelSwitchCCSet_deserialize ::
  "(byte \<Rightarrow> 'd option) \<Rightarrow> Buffer \<Rightarrow> error + 'd MultilevelSwitchCCSet" where
  "MultilevelSwitchCCSet_deserialize parseReport payload =
     validatePayload (length payload \<ge> 1)
       (Inr \<lparr> set_targetValue = uint (payload ! 0),
              set_duration = (if length payload \<ge> 2 then parseReport (payload ! 1) else None) \<rparr>)"

definition MultilevelSwitchCCSet_payload ::
  "('d \<Rightarrow> int) \<Rightarrow> nat \<Rightarrow> 'd MultilevelSwitchCCSet \<Rightarrow> int list" where
  "MultilevelSwitchCCSet_payload serializeSet version cc =
     [set_targetValue cc] @
     (if version \<ge> 2 \<and> set_duration cc \<noteq> None
      then [serializeSet (the (set_duration cc))] else [])"

definition MultilevelSwitchCCSet_serialize ::
  "('d \<Rightarrow> int) \<Rightarrow> nat \<Rightarrow> 'd MultilevelSwitchCCSet \<Rightarrow> Buffer" where
  "MultilevelSwitchCCSet_serialize serializeSet version cc =
     Buffer_from (MultilevelSwitchCCSet_payload serializeSet version cc)"

subsection \<open>MultilevelSwitchCCReport\<close>

text \<open>\<^verbatim>\<open>Maybe<number>\<close> is a number or the marker \<^verbatim>\<open>unknownNumber\<close>.\<close>

datatype Maybe_number = Known int | unknownNumber

record 'd MultilevelSwitchCCReport =
  report_currentValue :: "Maybe_number option"
  report_targetValue :: "int option"
  report_duration :: "'d option"

definition MultilevelSwitchCCReport_deserialize ::
  "(byte \<Rightarrow> Maybe_number option) \<Rightarrow> (byte \<Rightarrow> int option) \<Rightarrow> (byte \<Rightarrow> 'd option) \<Rightarrow>
   nat \<Rightarrow> Buffer \<Rightarrow> error + 'd MultilevelSwitchCCReport" where
  "MultilevelSwitchCCReport_deserialize parseMaybeNumber parseNumber parseReport version payload =
     validatePayload (length payload \<ge> 1)
       (Inr (if version \<ge> 4 \<and> length payload \<ge> 3
             then \<lparr> report_currentValue = parseMaybeNumber (payload ! 0),
                    report_targetValue = parseNumber (payload ! 1),
                    report_duration = parseReport (payload ! 2) \<rparr>
             else \<lparr> report_currentValue = parseMaybeNumber (payload ! 0),
                    report_targetValue = None,
                    report_duration = None \<rparr>))"

subsection \<open>MultilevelSwitchCCStartLevelChange\<close>

datatype LevelChangeDirection = up | down

record 'd MultilevelSwitchCCStartLevelChange =
  slc_duration :: "'d option"
  slc_startLevel :: int
  slc_ignoreStartLevel :: bool
  slc_direction :: LevelChangeDirection

definition MultilevelSwitchCCStartLevelChange_deserialize ::
  "(byte \<Rightarrow> 'd option) \<Rightarrow> Buffer \<Rightarrow> error + 'd MultilevelSwitchCCStartLevelChange" where
  "MultilevelSwitchCCStartLevelChange_deserialize parseSet payload =
     validatePayload (length payload \<ge> 2)
       (let ignoreStartLevel = drop_bit 5 (payload ! 0 AND 0x20);
            direction = drop_bit 6 (payload ! 0 AND 0x40)
        in Inr \<lparr> slc_duration = (if length payload \<ge> 3 then parseSet (payload ! 2) else None),
                 slc_startLevel = uint (payload ! 1),
                 slc_ignoreStartLevel = (ignoreStartLevel \<noteq> 0),
                 slc_direction = (if direction \<noteq> 0 then down else up) \<rparr>)"

text \<open>
  \<open>dirValue\<close> is the numeric value of a member of the enumeration
  \<^verbatim>\<open>LevelChangeDirection\<close> (\<^verbatim>\<open>LevelChangeDirection[this.direction]\<close>); the enumeration is
  declared in \<^verbatim>\<open>../lib/_Types\<close>.
\<close>

definition MultilevelSwitchCCStartLevelChange_payload ::
  "(LevelChangeDirection \<Rightarrow> int) \<Rightarrow> ('d \<Rightarrow> int) \<Rightarrow> nat \<Rightarrow>
   'd MultilevelSwitchCCStartLevelChange \<Rightarrow> int list" where
  "MultilevelSwitchCCStartLevelChange_payload dirValue serializeSet version cc =
     (let controlByte =
            push_bit 6 (dirValue (slc_direction cc)) OR
            (if slc_ignoreStartLevel cc then 0x20 else 0)
      in [controlByte, slc_startLevel cc] @
         (if version \<ge> 2 \<and> slc_duration cc \<noteq> None
          then [serializeSet (the (slc_duration cc))] else []))"

definition MultilevelSwitchCCStartLevelChange_serialize ::
  "(LevelChangeDirection \<Rightarrow> int) \<Rightarrow> ('d \<Rightarrow> int) \<Rightarrow> nat \<Rightarrow>
   'd MultilevelSwitchCCStartLevelChange \<Rightarrow> Buffer" where
  "MultilevelSwitchCCStartLevelChange_serialize dirValue serializeSet version cc =
     Buffer_from (MultilevelSwitchCCStartLevelChange_payload dirValue serializeSet version cc)"

subsection \<open>MultilevelSwitchCCSupportedReport\<close>

text \<open>The switch type is kept as the number read from the wire.\<close>

record MultilevelSwitchCCSupportedReport =
  supported_switchType :: nat

definition MultilevelSwitchCCSupportedReport_deserialize ::
  "Buffer \<Rightarrow> error + MultilevelSwitchCCSupportedReport" where
  "MultilevelSwitchCCSupportedReport_deserialize payload =
     validatePayload (length payload \<ge> 1)
       (Inr \<lparr> supported_switchType = unat (payload ! 0 AND 0b11111) \<rparr>)"

section \<open>The interview stages of a node\<close>

text \<open>
  The enumeration \<^verbatim>\<open>InterviewStage\<close> as the declaration file of the node declares it.
  The member \<^verbatim>\<open>None\<close> is written \<open>None_stage\<close>, since \<open>None\<close> is the empty option.
  \<open>InterviewStage_value\<close> is the numeric value of a member, \<open>InterviewStage_name\<close> its
  name (the reverse mapping \<^verbatim>\<open>InterviewStage[value]\<close> of a TypeScript enum), and
  \<open>InterviewStage_all\<close> lists the members in the order of the declaration.
\<close>

datatype InterviewStage =
    None_stage
  | ProtocolInfo
  | Probe
  | WakeUp
  | ManufacturerSpecific1
  | NodeInfo
  | NodePlusInfo
  | SecurityReport
  | ManufacturerSpecific2
  | Versions
  | Instances
  | Static
  | CacheLoad
  | Associations
  | Neighbors
  | Session
  | Dynamic
  | Configuration
  | Complete

fun InterviewStage_value :: "InterviewStage \<Rightarrow> nat" where
  "InterviewStage_value None_stage = 0"
| "InterviewStage_value ProtocolInfo = 1"
| "InterviewStage_value Probe = 2"
| "InterviewStage_value WakeUp = 3"
| "InterviewStage_value ManufacturerSpecific1 = 4"
| "InterviewStage_value NodeInfo = 5"
| "InterviewStage_value NodePlusInfo = 6"
| "InterviewStage_value SecurityReport = 7"
| "InterviewStage_value ManufacturerSpecific2 = 8"
| "InterviewStage_value Versions = 9"
| "InterviewStage_value Instances = 10"
| "InterviewStage_value Static = 11"
| "InterviewStage_value CacheLoad = 12"
| "InterviewStage_value Associations = 13"
| "InterviewStage_value Neighbors = 14"
| "InterviewStage_value Session = 15"
| "InterviewStage_value Dynamic = 16"
| "InterviewStage_value Configuration = 17"
| "InterviewStage_value Complete = 18"

fun InterviewStage_name :: "InterviewStage \<Rightarrow> string" where
  "InterviewStage_name None_stage = ''None''"
| "InterviewStage_name ProtocolInfo = ''ProtocolInfo''"
| "InterviewStage_name Probe = ''Probe''"
| "InterviewStage_name WakeUp = ''WakeUp''"
| "InterviewStage_name ManufacturerSpecific1 = ''ManufacturerSpecific1''"
| "InterviewStage_name NodeInfo = ''NodeInfo''"
| "InterviewStage_name NodePlusInfo = ''NodePlusInfo''"
| "InterviewStage_name SecurityReport = ''SecurityReport''"
| "InterviewStage_name ManufacturerSpecific2 = ''ManufacturerSpecific2''"
| "InterviewStage_name Versions = ''Versions''"
| "InterviewStage_name Instances = ''Instances''"
| "InterviewStage_name Static = ''Static''"
| "InterviewStage_name CacheLoad = ''CacheLoad''"
| "InterviewStage_name Associations = ''Associations''"
| "InterviewStage_name Neighbors = ''Neighbors''"
| "InterviewStage_name Session = ''Session''"
| "InterviewStage_name Dynamic = ''Dynamic''"
| "InterviewStage_name Configuration = ''Configuration''"
| "InterviewStage_name Complete = ''Complete''"

definition InterviewStage_all :: "InterviewStage list" where
  "InterviewStage_all =
     [None_stage, ProtocolInfo, Probe, WakeUp, ManufacturerSpecific1, NodeInfo, NodePlusInfo,
      SecurityReport, ManufacturerSpecific2, Versions, Instances, Static, CacheLoad,
      Associations, Neighbors, Session, Dynamic, Configuration, Complete]"

text \<open>The member of a given name, if the enumeration has one.\<close>

definition InterviewStage_member :: "string \<Rightarrow> InterviewStage option" where
  "InterviewStage_member name = find (\<lambda>s. InterviewStage_name s = name) InterviewStage_all"

section \<open>Values and the value database\<close>

text \<open>
  A JavaScript value as the API receives it: \<^verbatim>\<open>typeof value\<close> tells the constructors
  apart. Numbers are integers here. The property of a value id is a string or a number.
\<close>

datatype js_value = JS_number int | JS_boolean bool | JS_string string | JS_undefined

datatype property = PropertyName string | PropertyNumber int

datatype CommandClasses = Multilevel_Switch

record ValueID =
  commandClass :: CommandClasses
  endpoint :: nat
  property :: property

text \<open>
  Modelled from the spec: the class \<^verbatim>\<open>ValueDB\<close> of \<^verbatim>\<open>@zwave-js/core\<close>, which
  \<^verbatim>\<open>packages/core/src/index.ts\<close> re-exports from \<^verbatim>\<open>./values/ValueDB\<close>. The spec: "The ValueDB
  exposes get/set/has/remove(valueId) and emits change events; setting a value with an
  unchanged payload does not emit." The callers name the first two \<^verbatim>\<open>getValue\<close> and
  \<^verbatim>\<open>setValue\<close>. A call returns the database it leaves and the events it emits.
\<close>

type_synonym ValueDB = "ValueID \<rightharpoonup> js_value"

datatype ValueDB_event = Value_changed ValueID js_value

definition ValueDB_getValue :: "ValueDB \<Rightarrow> ValueID \<Rightarrow> js_value option" where
  "ValueDB_getValue db valueId = db valueId"

definition ValueDB_has :: "ValueDB \<Rightarrow> ValueID \<Rightarrow> bool" where
  "ValueDB_has db valueId = (db valueId \<noteq> None)"

definition ValueDB_setValue ::
  "ValueDB \<Rightarrow> ValueID \<Rightarrow> js_value \<Rightarrow> ValueDB \<times> ValueDB_event list" where
  "ValueDB_setValue db valueId v =
     (if db valueId = Some v then (db, [])
      else (db(valueId \<mapsto> v), [Value_changed valueId v]))"

section \<open>The property names of the level changes\<close>

text \<open>
  \<^verbatim>\<open>Array.prototype.indexOf\<close> and \<^verbatim>\<open>String.prototype.indexOf\<close> (for one character): the
  first index of the element, or \<open>-1\<close>. \<open>js_rem\<close> is the operator \<^verbatim>\<open>%\<close>, whose result has
  the sign of the dividend. \<open>split_on\<close> is \<^verbatim>\<open>String.prototype.split\<close> for a separator of
  one character.
\<close>

fun indexOf :: "'a list \<Rightarrow> 'a \<Rightarrow> int" where
  "indexOf [] x = -1"
| "indexOf (y # ys) x =
     (if y = x then 0 else (let r = indexOf ys x in if r < 0 then -1 else r + 1))"

definition js_rem :: "int \<Rightarrow> int \<Rightarrow> int" where
  "js_rem a b = sgn a * (\<bar>a\<bar> mod \<bar>b\<bar>)"

fun split_on :: "char \<Rightarrow> string \<Rightarrow> string list" where
  "split_on sep [] = [[]]"
| "split_on sep (c # cs) =
     (if c = sep then [] # split_on sep cs
      else (case split_on sep cs of
              [] \<Rightarrow> [[c]]
            | piece # pieces \<Rightarrow> (c # piece) # pieces))"

text \<open>
  The enumeration \<^verbatim>\<open>SwitchType\<close> is declared in \<^verbatim>\<open>../lib/_Types\<close>. The functions take
  what they read of it as arguments: \<open>downUp\<close> is the name \<^verbatim>\<open>SwitchType[0x02]\<close>, and
  \<open>keys\<close> is \<^verbatim>\<open>Object.keys(SwitchType)\<close>. The result of \<open>switchTypeToActions\<close> is the array
  that \<^verbatim>\<open>split("/", 2)\<close> returns, with at most two elements.
\<close>

definition switchTypeToActions :: "string \<Rightarrow> string \<Rightarrow> string list" where
  "switchTypeToActions downUp switchType =
     take 2 (split_on CHR ''/''
       (if CHR ''/'' \<notin> set switchType then downUp else switchType))"

definition switchTypeProperties :: "string \<Rightarrow> string list \<Rightarrow> string list" where
  "switchTypeProperties downUp keys =
     foldl (\<lambda>acc cur. acc @ cur) []
       (map (switchTypeToActions downUp)
         (filter (\<lambda>key. indexOf key CHR ''/'' > -1) keys))"

text \<open>
  The predicates of the dynamic values \<^verbatim>\<open>levelChangeUp\<close> and \<^verbatim>\<open>levelChangeDown\<close>, which
  tell whether a property is one of theirs. \<open>props\<close> is \<^verbatim>\<open>switchTypeProperties\<close>.
\<close>

definition levelChangeUp_is :: "string list \<Rightarrow> property \<Rightarrow> bool" where
  "levelChangeUp_is props prop =
     (case prop of
        PropertyName p \<Rightarrow> js_rem (indexOf props p) 2 = 1
      | PropertyNumber _ \<Rightarrow> False)"

definition levelChangeDown_is :: "string list \<Rightarrow> property \<Rightarrow> bool" where
  "levelChangeDown_is props prop =
     (case prop of
        PropertyName p \<Rightarrow> js_rem (indexOf props p) 2 = 0
      | PropertyNumber _ \<Rightarrow> False)"

section \<open>The API of the command class\<close>

text \<open>
  The result of sending a supervised command carries the status of the supervision report;
  the source tells \<^verbatim>\<open>Success\<close> and \<^verbatim>\<open>Fail\<close> from every other status. An unsupervised
  command gives \<^verbatim>\<open>undefined\<close>, here \<open>None\<close>. \<open>isSupervisionResult\<close> is the type guard of
  \<^verbatim>\<open>@zwave-js/core\<close> on a value of the type \<^verbatim>\<open>SupervisionResult | undefined\<close>.
\<close>

datatype SupervisionStatus = Success | Fail | Other_status

record SupervisionResult =
  status :: SupervisionStatus

definition isSupervisionResult :: "SupervisionResult option \<Rightarrow> bool" where
  "isSupervisionResult result = (result \<noteq> None)"

text \<open>
  What the API reads of its surroundings. \<open>cast\<close> answers \<^verbatim>\<open>isSinglecast()\<close> and
  \<^verbatim>\<open>isMulticast()\<close>; \<open>valueDB\<close> is what \<^verbatim>\<open>tryGetValueDB()\<close> returns; \<open>physicalNodes\<close> lists,
  for a multicast, the id of every physical node with whether its endpoint supports the
  command class and whether it has a value database. \<open>supervisedCommandSucceeded\<close> is the
  helper of this name of \<^verbatim>\<open>@zwave-js/core\<close>, which the API calls on the result. \<open>SwitchType_DownUp\<close> and
  \<open>SwitchType_keys\<close> are \<^verbatim>\<open>SwitchType[0x02]\<close> and \<^verbatim>\<open>Object.keys(SwitchType)\<close>.
\<close>

datatype cast = Singlecast | Multicast | Broadcast

record API_env =
  endpoint_index :: nat
  cast :: cast
  disableOptimisticValueUpdate :: bool
  valueDB :: "ValueDB option"
  physicalNodes :: "(nat \<times> bool \<times> bool) list"
  supervisedCommandSucceeded :: "SupervisionResult option \<Rightarrow> bool"
  SwitchType_DownUp :: string
  SwitchType_keys :: "string list"

text \<open>
  What a call does, in the order it does it: the commands it sends (for a Set, with
  whether status updates are requested and \<^verbatim>\<open>onUpdate\<close> is registered), the values it
  writes into the value database of the node (or, for a multicast, of a physical node),
  and the polls it schedules (the property, the expected value and the duration).
\<close>

datatype 'd effect =
    Send_Set "'d MultilevelSwitchCCSet" bool
  | Send_StartLevelChange "'d MultilevelSwitchCCStartLevelChange"
  | Send_StopLevelChange
  | Send_Get
  | DB_setValue ValueID js_value
  | DB_setValue_of_node nat ValueID js_value
  | Schedule_poll property "js_value option" "'d option"

definition currentValue_endpoint :: "nat \<Rightarrow> ValueID" where
  "currentValue_endpoint index =
     \<lparr> commandClass = Multilevel_Switch, endpoint = index,
       property = PropertyName ''currentValue'' \<rparr>"

text \<open>\<^verbatim>\<open>this.tryGetValueDB()?.setValue(valueId, value)\<close>: nothing happens without a database.\<close>

definition tryGetValueDB_setValue :: "API_env \<Rightarrow> ValueID \<Rightarrow> js_value \<Rightarrow> 'd effect list" where
  "tryGetValueDB_setValue env valueId v =
     (case valueDB env of None \<Rightarrow> [] | Some db \<Rightarrow> [DB_setValue valueId v])"

text \<open>
  The callback \<^verbatim>\<open>onUpdate\<close> that a Set of a value other than 255 registers. The host calls
  it for a status update that follows the first report. \<^verbatim>\<open>this.get()\<close> sends a Get when
  the API is singlecast and throws otherwise; the callback swallows what it throws.
\<close>

definition onUpdate :: "API_env \<Rightarrow> int \<Rightarrow> SupervisionStatus \<Rightarrow> 'd effect list" where
  "onUpdate env v update_status =
     (if update_status = Success
      then tryGetValueDB_setValue env (currentValue_endpoint (endpoint_index env)) (JS_number v)
      else if update_status = Fail
      then (if cast env = Singlecast then [Send_Get] else [])
      else [])"

text \<open>
  The branch of \<^verbatim>\<open>SET_VALUE\<close> for the property \<^verbatim>\<open>targetValue\<close> and a number. \<open>duration\<close>
  is \<^verbatim>\<open>Duration.from(options?.transitionDuration)\<close> and \<open>result\<close> what the awaited
  \<^verbatim>\<open>set(value, duration)\<close> returns.
\<close>

definition setValue_targetValue ::
  "API_env \<Rightarrow> int \<Rightarrow> 'd option \<Rightarrow> SupervisionResult option \<Rightarrow>
   'd effect list \<times> (error + SupervisionResult option)" where
  "setValue_targetValue env v duration result =
     (let currentValueValueId = currentValue_endpoint (endpoint_index env);
          sent = [Send_Set \<lparr> set_targetValue = v, set_duration = duration \<rparr> (v \<noteq> 255)];
          shouldUpdateOptimistically =
            ((\<not> disableOptimisticValueUpdate env \<and> result = None) \<or>
             (isSupervisionResult result \<and> map_option status result = Some Success))
      in (sent @
          (if cast env = Singlecast then
             (if shouldUpdateOptimistically \<and> v \<ge> 0 \<and> v \<le> 99
              then tryGetValueDB_setValue env currentValueValueId (JS_number v) else []) @
             (if \<not> supervisedCommandSucceeded env result \<or> v = 255
              then [Schedule_poll (PropertyName ''currentValue'')
                      (if v = 255 then None else Some (JS_number v)) duration]
              else [])
           else if cast env = Multicast then
             (if shouldUpdateOptimistically \<and> v \<ge> 0 \<and> v \<le> 99
              then map (\<lambda>(nodeId, supportsCC, hasDB).
                          DB_setValue_of_node nodeId currentValueValueId (JS_number v))
                     (filter (\<lambda>(nodeId, supportsCC, hasDB). supportsCC \<and> hasDB)
                        (physicalNodes env))
              else if v = 255
              then [Schedule_poll (PropertyName ''currentValue'') None duration]
              else [])
           else []),
          Inr result))"

text \<open>
  The branch for a level change that starts. The start level is the stored current value;
  \<^verbatim>\<open>startLevelChange\<close> validates its arguments, so a stored value that is neither a number
  nor \<^verbatim>\<open>undefined\<close> is refused, and the constructor of the command replaces \<^verbatim>\<open>undefined\<close>
  by 0.
\<close>

definition tryGetValueDB_getValue :: "API_env \<Rightarrow> ValueID \<Rightarrow> js_value" where
  "tryGetValueDB_getValue env valueId =
     (case valueDB env of
        None \<Rightarrow> JS_undefined
      | Some db \<Rightarrow>
          (case ValueDB_getValue db valueId of
             None \<Rightarrow> JS_undefined
           | Some stored \<Rightarrow> stored))"

definition setValue_startLevelChange ::
  "API_env \<Rightarrow> string list \<Rightarrow> string \<Rightarrow> 'd option \<Rightarrow> SupervisionResult option \<Rightarrow>
   'd effect list \<times> (error + SupervisionResult option)" where
  "setValue_startLevelChange env props p duration result =
     (let direction = (if js_rem (indexOf props p) 2 = 0 then down else up);
          startLevel = tryGetValueDB_getValue env (currentValue_endpoint (endpoint_index env));
          send = (\<lambda>level.
            ([Send_StartLevelChange
                \<lparr> slc_duration = duration, slc_startLevel = level,
                  slc_ignoreStartLevel = True, slc_direction = direction \<rparr>],
             Inr result))
      in case startLevel of
           JS_number n \<Rightarrow> send n
         | JS_undefined \<Rightarrow> send 0
         | _ \<Rightarrow> ([], Inl InvalidArgument))"

definition SET_VALUE ::
  "API_env \<Rightarrow> property \<Rightarrow> js_value \<Rightarrow> 'd option \<Rightarrow> SupervisionResult option \<Rightarrow>
   'd effect list \<times> (error + SupervisionResult option)" where
  "SET_VALUE env property0 value0 transitionDuration result =
     (let props = switchTypeProperties (SwitchType_DownUp env) (SwitchType_keys env);
          (prop, v) =
            (if property0 = PropertyName ''restorePrevious''
             then (PropertyName ''targetValue'', JS_number 255)
             else (property0, value0))
      in if prop = PropertyName ''targetValue'' then
           (case v of
              JS_number n \<Rightarrow> setValue_targetValue env n transitionDuration result
            | _ \<Rightarrow> ([], Inl WrongValueType))
         else if (case prop of PropertyName p \<Rightarrow> p \<in> set props | PropertyNumber _ \<Rightarrow> False) then
           (case v of
              JS_boolean b \<Rightarrow>
                (if b
                 then (case prop of
                         PropertyName p \<Rightarrow>
                           setValue_startLevelChange env props p transitionDuration result
                       | PropertyNumber _ \<Rightarrow> ([], Inl UnsupportedProperty))
                 else ([Send_StopLevelChange], Inr result))
            | _ \<Rightarrow> ([], Inl WrongValueType))
         else ([], Inl UnsupportedProperty))"

text \<open>
  The writes of a call, carried out on the value database of the node: the database they
  leave and the change events they emit.
\<close>

fun run_DB_effects :: "ValueDB \<Rightarrow> 'd effect list \<Rightarrow> ValueDB \<times> ValueDB_event list" where
  "run_DB_effects db [] = (db, [])"
| "run_DB_effects db (DB_setValue valueId v # effects) =
     (let (db', events) = ValueDB_setValue db valueId v;
          (db'', events') = run_DB_effects db' effects
      in (db'', events @ events'))"
| "run_DB_effects db (_ # effects) = run_DB_effects db effects"

section \<open>Properties of the codec\<close>

lemma and_31_mod_32: "unat ((b::byte) AND 0b11111) = unat b mod 32"
  using unat_mod[of b 32] word_mod_2p_is_mask[of 5 b] by (simp add: mask_eq_exp_minus_1)

lemma upper_bits_ignored: "((b::byte) XOR push_bit 5 h) AND 0b11111 = b AND 0b11111"
proof -
  have m: "(0b11111::byte) = mask 5" by (simp add: mask_eq_exp_minus_1)
  show ?thesis unfolding m
    by (rule bit_eqI) (auto simp add: bit_simps)
qed

text \<open>
  C10. Deserializing a MultilevelSwitchCCSupportedReport from a payload that starts with
  the byte \<open>b\<close> succeeds with \<open>switchType = b mod 32\<close>, which is below 32; changing
  any of the upper three bits of \<open>b\<close> (the bits of \<open>push_bit 5 h\<close>) changes nothing in the
  result.
\<close>

theorem SupportedReport_switchType_low_five_bits:
  "MultilevelSwitchCCSupportedReport_deserialize (b # rest) =
     Inr \<lparr> supported_switchType = unat b mod 32 \<rparr>
   \<and> unat b mod 32 < 32
   \<and> MultilevelSwitchCCSupportedReport_deserialize ((b XOR push_bit 5 h) # rest) =
     MultilevelSwitchCCSupportedReport_deserialize (b # rest)"
  by (simp add: MultilevelSwitchCCSupportedReport_deserialize_def validatePayload_def
      and_31_mod_32 upper_bits_ignored)

theorem SupportedReport_switchType_low_five_bits_witness:
  "MultilevelSwitchCCSupportedReport_deserialize [0xE2, 0] =
     Inr \<lparr> supported_switchType = 2 \<rparr>
   \<and> MultilevelSwitchCCSupportedReport_deserialize [0x02, 0] =
     Inr \<lparr> supported_switchType = 2 \<rparr>"
  using SupportedReport_switchType_low_five_bits [of "0xE2" "[0]" 0]
        SupportedReport_switchType_low_five_bits [of "0x02" "[0]" 0]
  by simp

text \<open>
  C3. A payload shorter than the minimum makes the deserialization fail with MalformedCC,
  and the result is then the error alone, with no instance: the minimum is one byte for
  Set, Report and SupportedReport and two bytes for StartLevelChange. A payload of at
  least the minimum length always deserializes to an instance.
\<close>

theorem deserialize_minimum_length:
  "(length p < 1 \<longrightarrow> MultilevelSwitchCCSet_deserialize parseReport p = Inl MalformedCC)
   \<and> (length p \<ge> 1 \<longrightarrow> (\<exists>cc. MultilevelSwitchCCSet_deserialize parseReport p = Inr cc))
   \<and> (length p < 1 \<longrightarrow>
        MultilevelSwitchCCReport_deserialize parseMaybeNumber parseNumber parseReport version p
          = Inl MalformedCC)
   \<and> (length p \<ge> 1 \<longrightarrow>
        (\<exists>cc. MultilevelSwitchCCReport_deserialize parseMaybeNumber parseNumber parseReport version p
          = Inr cc))
   \<and> (length p < 2 \<longrightarrow>
        MultilevelSwitchCCStartLevelChange_deserialize parseSet p = Inl MalformedCC)
   \<and> (length p \<ge> 2 \<longrightarrow>
        (\<exists>cc. MultilevelSwitchCCStartLevelChange_deserialize parseSet p = Inr cc))
   \<and> (length p < 1 \<longrightarrow> MultilevelSwitchCCSupportedReport_deserialize p = Inl MalformedCC)
   \<and> (length p \<ge> 1 \<longrightarrow> (\<exists>cc. MultilevelSwitchCCSupportedReport_deserialize p = Inr cc))"
  by (simp add: MultilevelSwitchCCSet_deserialize_def MultilevelSwitchCCReport_deserialize_def
      MultilevelSwitchCCStartLevelChange_deserialize_def
      MultilevelSwitchCCSupportedReport_deserialize_def validatePayload_def Let_def)

theorem deserialize_minimum_length_witness:
  "MultilevelSwitchCCSet_deserialize (\<lambda>b. Some b) [] = Inl MalformedCC
   \<and> (\<exists>cc. MultilevelSwitchCCSet_deserialize (\<lambda>b. Some b) [80] = Inr cc)
   \<and> MultilevelSwitchCCReport_deserialize (\<lambda>b. Some (Known (uint b))) (\<lambda>b. Some (uint b))
        (\<lambda>b. Some b) 4 [] = Inl MalformedCC
   \<and> (\<exists>cc. MultilevelSwitchCCReport_deserialize (\<lambda>b. Some (Known (uint b))) (\<lambda>b. Some (uint b))
        (\<lambda>b. Some b) 4 [80] = Inr cc)
   \<and> MultilevelSwitchCCStartLevelChange_deserialize (\<lambda>b. Some b) [0x20] = Inl MalformedCC
   \<and> (\<exists>cc. MultilevelSwitchCCStartLevelChange_deserialize (\<lambda>b. Some b) [0x20, 0] = Inr cc)
   \<and> MultilevelSwitchCCSupportedReport_deserialize [] = Inl MalformedCC
   \<and> (\<exists>cc. MultilevelSwitchCCSupportedReport_deserialize [2] = Inr cc)"
  using deserialize_minimum_length [of "[]" "\<lambda>b. Some b" "\<lambda>b. Some (Known (uint b))"
          "\<lambda>b. Some (uint b)" 4 "\<lambda>b. Some b"]
        deserialize_minimum_length [of "[80]" "\<lambda>b. Some b" "\<lambda>b. Some (Known (uint b))"
          "\<lambda>b. Some (uint b)" 4 "\<lambda>b. Some b"]
        deserialize_minimum_length [of "[0x20]" "\<lambda>b. Some b" "\<lambda>b. Some (Known (uint b))"
          "\<lambda>b. Some (uint b)" 4 "\<lambda>b. Some b"]
        deserialize_minimum_length [of "[0x20, 0]" "\<lambda>b. Some b" "\<lambda>b. Some (Known (uint b))"
          "\<lambda>b. Some (uint b)" 4 "\<lambda>b. Some b"]
        deserialize_minimum_length [of "[2]" "\<lambda>b. Some b" "\<lambda>b. Some (Known (uint b))"
          "\<lambda>b. Some (uint b)" 4 "\<lambda>b. Some b"]
  by simp

lemma uint_word_of_int_byte: "0 \<le> x \<Longrightarrow> x \<le> 255 \<Longrightarrow> uint (word_of_int x :: byte) = x"
  by (simp add: uint_word_of_int take_bit_eq_mod)

lemma Set_deserialize_serialize:
  fixes m :: "'d MultilevelSwitchCCSet"
  assumes "0 \<le> set_targetValue m" and "set_targetValue m \<le> 255"
  shows "MultilevelSwitchCCSet_deserialize parseReport
           (MultilevelSwitchCCSet_serialize serializeSet version m) =
         Inr \<lparr> set_targetValue = set_targetValue m,
               set_duration =
                 (case set_duration m of
                    None \<Rightarrow> None
                  | Some d \<Rightarrow>
                      if 2 \<le> version then parseReport (word_of_int (serializeSet d))
                      else None) \<rparr>"
  using assms
  by (cases "set_duration m")
     (simp_all add: MultilevelSwitchCCSet_deserialize_def MultilevelSwitchCCSet_serialize_def
        MultilevelSwitchCCSet_payload_def Buffer_from_def validatePayload_def
        uint_word_of_int_byte)

lemma StartLevelChange_deserialize_serialize:
  fixes s :: "'d MultilevelSwitchCCStartLevelChange"
  assumes enum: "dirValue up = 0" "dirValue down = 1"
    and rng: "0 \<le> slc_startLevel s" "slc_startLevel s \<le> 255"
  shows "MultilevelSwitchCCStartLevelChange_deserialize parseSet
           (MultilevelSwitchCCStartLevelChange_serialize dirValue serializeSet version s) =
         Inr (s\<lparr> slc_duration :=
                 (case slc_duration s of
                    None \<Rightarrow> None
                  | Some d \<Rightarrow>
                      if 2 \<le> version then parseSet (word_of_int (serializeSet d))
                      else None) \<rparr>)"
proof -
  have ctl: "\<And>rest. MultilevelSwitchCCStartLevelChange_deserialize parseSet
      (word_of_int (push_bit 6 (dirValue (slc_direction s)) OR
            (if slc_ignoreStartLevel s then 0x20 else 0)) # word_of_int (slc_startLevel s) # rest)
      = Inr (s\<lparr> slc_duration := (case rest of [] \<Rightarrow> None | b # _ \<Rightarrow> parseSet b) \<rparr>)"
    using enum rng
    by (cases "slc_direction s"; cases "slc_ignoreStartLevel s")
       (simp_all add: MultilevelSwitchCCStartLevelChange_deserialize_def validatePayload_def
          Let_def uint_word_of_int_byte split: list.splits)
  show ?thesis
  proof (cases "slc_duration s")
    case None
    then show ?thesis
      using ctl [of "[]"]
      by (simp add: MultilevelSwitchCCStartLevelChange_serialize_def
          MultilevelSwitchCCStartLevelChange_payload_def Buffer_from_def Let_def)
  next
    case (Some d)
    then show ?thesis
      using ctl [of "[word_of_int (serializeSet d)]"] ctl [of "[]"]
      by (simp add: MultilevelSwitchCCStartLevelChange_serialize_def
          MultilevelSwitchCCStartLevelChange_payload_def Buffer_from_def Let_def)
  qed
qed

lemma Set_layout:
  "MultilevelSwitchCCSet_serialize serializeSet version m =
     word_of_int (set_targetValue m) #
     (case set_duration m of
        None \<Rightarrow> []
      | Some d \<Rightarrow> if 2 \<le> version then [word_of_int (serializeSet d)] else [])"
  by (simp add: MultilevelSwitchCCSet_serialize_def MultilevelSwitchCCSet_payload_def
      Buffer_from_def split: option.splits)

lemma StartLevelChange_layout:
  assumes "dirValue up = 0" "dirValue down = 1"
  shows "\<exists>controlByte.
     MultilevelSwitchCCStartLevelChange_serialize dirValue serializeSet version s =
       controlByte # word_of_int (slc_startLevel s) #
       (case slc_duration s of
          None \<Rightarrow> []
        | Some d \<Rightarrow> if 2 \<le> version then [word_of_int (serializeSet d)] else [])
     \<and> (bit controlByte 6 \<longleftrightarrow> slc_direction s = down)
     \<and> (bit controlByte 5 \<longleftrightarrow> slc_ignoreStartLevel s)"
  using assms
  by (cases "slc_direction s"; cases "slc_ignoreStartLevel s")
     (simp_all add: MultilevelSwitchCCStartLevelChange_serialize_def
        MultilevelSwitchCCStartLevelChange_payload_def Buffer_from_def Let_def bit_simps
        split: option.splits)

text \<open>
  C1 (as amended). Let \<open>m\<close> be a MultilevelSwitchCCSet and \<open>s\<close> a
  MultilevelSwitchCCStartLevelChange whose target value and start level are bytes. At
  every version, parsing the bytes of the serialized \<open>m\<close> succeeds with the target value
  of \<open>m\<close>; it gives \<open>m\<close> itself when \<open>m\<close> has no duration, and a command without a
  duration at version 1, where no duration is serialized. Parsing the bytes of the
  serialized \<open>s\<close> gives \<open>s\<close> with its direction, ignoreStartLevel and start level; the
  duration of the result is absent when \<open>s\<close> has none or the version is 1, and is
  otherwise what \<^verbatim>\<open>Duration.parseSet\<close> reads from the byte \<^verbatim>\<open>Duration.serializeSet\<close> wrote, so
  the result is \<open>s\<close> itself when \<open>s\<close> has no duration. The payload of Set is the target
  value and, at version 2 or higher with a duration set, the duration byte; the payload of
  StartLevelChange is the control byte, the start level and the same optional duration
  byte, with the direction (down is 1, up is 0) in bit 6 and ignoreStartLevel in bit 5 of
  the control byte.
\<close>

theorem MultilevelSwitchCC_roundtrip:
  fixes m :: "'d MultilevelSwitchCCSet" and s :: "'d MultilevelSwitchCCStartLevelChange"
  assumes "0 \<le> set_targetValue m" and "set_targetValue m \<le> 255"
    and "dirValue up = 0" and "dirValue down = 1"
    and "0 \<le> slc_startLevel s" and "slc_startLevel s \<le> 255"
  shows "(\<exists>m'. MultilevelSwitchCCSet_deserialize parseReport
                 (MultilevelSwitchCCSet_serialize serializeSet version m) = Inr m'
              \<and> set_targetValue m' = set_targetValue m
              \<and> (set_duration m = None \<longrightarrow> m' = m)
              \<and> (version < 2 \<longrightarrow> set_duration m' = None))
    \<and> MultilevelSwitchCCStartLevelChange_deserialize parseSet
           (MultilevelSwitchCCStartLevelChange_serialize dirValue serializeSet version s) =
         Inr (s\<lparr> slc_duration :=
                 (case slc_duration s of
                    None \<Rightarrow> None
                  | Some d \<Rightarrow>
                      if 2 \<le> version then parseSet (word_of_int (serializeSet d))
                      else None) \<rparr>)
    \<and> (slc_duration s = None \<longrightarrow>
         MultilevelSwitchCCStartLevelChange_deserialize parseSet
           (MultilevelSwitchCCStartLevelChange_serialize dirValue serializeSet version s) = Inr s)
    \<and> MultilevelSwitchCCSet_serialize serializeSet version m =
         word_of_int (set_targetValue m) #
         (case set_duration m of
            None \<Rightarrow> []
          | Some d \<Rightarrow> if 2 \<le> version then [word_of_int (serializeSet d)] else [])
    \<and> (\<exists>controlByte.
         MultilevelSwitchCCStartLevelChange_serialize dirValue serializeSet version s =
           controlByte # word_of_int (slc_startLevel s) #
           (case slc_duration s of
              None \<Rightarrow> []
            | Some d \<Rightarrow> if 2 \<le> version then [word_of_int (serializeSet d)] else [])
         \<and> (bit controlByte 6 \<longleftrightarrow> slc_direction s = down)
         \<and> (bit controlByte 5 \<longleftrightarrow> slc_ignoreStartLevel s))"
proof -
  note set_rt = Set_deserialize_serialize [OF assms(1,2), of parseReport serializeSet version]
  have set_part: "\<exists>m'. MultilevelSwitchCCSet_deserialize parseReport
                 (MultilevelSwitchCCSet_serialize serializeSet version m) = Inr m'
              \<and> set_targetValue m' = set_targetValue m
              \<and> (set_duration m = None \<longrightarrow> m' = m)
              \<and> (version < 2 \<longrightarrow> set_duration m' = None)"
    unfolding set_rt by (cases "set_duration m") simp_all
  note slc_rt = StartLevelChange_deserialize_serialize [OF assms(3-6), of parseSet serializeSet version]
  have slc_none: "slc_duration s = None \<longrightarrow>
         MultilevelSwitchCCStartLevelChange_deserialize parseSet
           (MultilevelSwitchCCStartLevelChange_serialize dirValue serializeSet version s) = Inr s"
    unfolding slc_rt by simp
  show ?thesis
    using set_part slc_rt slc_none Set_layout [of serializeSet version m]
      StartLevelChange_layout [OF assms(3,4), of serializeSet version s]
    by blast
qed

theorem MultilevelSwitchCC_roundtrip_witness:
  "MultilevelSwitchCCSet_deserialize (\<lambda>b. Some (uint b))
     (MultilevelSwitchCCSet_serialize (\<lambda>d. d) 2 \<lparr> set_targetValue = 80, set_duration = None \<rparr>)
     = Inr \<lparr> set_targetValue = 80, set_duration = None \<rparr>
   \<and> MultilevelSwitchCCSet_serialize (\<lambda>d. d) 2 \<lparr> set_targetValue = 80, set_duration = None \<rparr>
     = [80]
   \<and> MultilevelSwitchCCStartLevelChange_deserialize (\<lambda>b. Some (uint b))
     (MultilevelSwitchCCStartLevelChange_serialize (\<lambda>d. if d = down then 1 else 0) (\<lambda>d. d) 2
        \<lparr> slc_duration = Some 5, slc_startLevel = 30, slc_ignoreStartLevel = True,
          slc_direction = down \<rparr>)
     = Inr \<lparr> slc_duration = Some 5, slc_startLevel = 30, slc_ignoreStartLevel = True,
          slc_direction = down \<rparr>"
proof -
  let ?m = "\<lparr> set_targetValue = 80, set_duration = (None :: int option) \<rparr>"
  let ?s = "\<lparr> slc_duration = Some (5::int), slc_startLevel = 30, slc_ignoreStartLevel = True,
          slc_direction = down \<rparr>"
  note w = MultilevelSwitchCC_roundtrip [where m = ?m
      and version = 2 and parseReport = "\<lambda>b. Some (uint b)" and serializeSet = "\<lambda>d. d"
      and dirValue = "\<lambda>d. if d = down then 1 else 0" and parseSet = "\<lambda>b. Some (uint b)"
      and s = ?s, simplified]
  have a: "MultilevelSwitchCCSet_deserialize (\<lambda>b. Some (uint b))
     (MultilevelSwitchCCSet_serialize (\<lambda>d. d) 2 ?m) = Inr ?m"
    using w by blast
  have b: "MultilevelSwitchCCStartLevelChange_deserialize (\<lambda>b. Some (uint b))
     (MultilevelSwitchCCStartLevelChange_serialize (\<lambda>d. if d = down then 1 else 0) (\<lambda>d. d) 2 ?s)
     = Inr ?s"
    using w by blast
  have c: "MultilevelSwitchCCSet_serialize (\<lambda>d. d) 2 ?m = [80]"
    using w by blast
  show ?thesis using a b c by blast
qed

text \<open>
  Without these conditions the round trip fails: at version 1 the serialization drops the
  duration of a Set, so the parsed command has none; and a target value outside a byte
  comes back reduced modulo 256.
\<close>

theorem roundtrip_counterexample:
  "MultilevelSwitchCCSet_deserialize (\<lambda>b. Some (uint b))
     (MultilevelSwitchCCSet_serialize (\<lambda>d. d) 1 \<lparr> set_targetValue = 80, set_duration = Some 5 \<rparr>)
     = Inr \<lparr> set_targetValue = 80, set_duration = None \<rparr>
   \<and> MultilevelSwitchCCSet_deserialize (\<lambda>b. Some (uint b))
     (MultilevelSwitchCCSet_serialize (\<lambda>d. d) 1 \<lparr> set_targetValue = 80, set_duration = Some 5 \<rparr>)
     \<noteq> Inr \<lparr> set_targetValue = 80, set_duration = Some 5 \<rparr>
   \<and> MultilevelSwitchCCSet_deserialize (\<lambda>b. Some (uint b))
     (MultilevelSwitchCCSet_serialize (\<lambda>d. d) 4 \<lparr> set_targetValue = 300, set_duration = None \<rparr>)
     = Inr \<lparr> set_targetValue = 44, set_duration = None \<rparr>"
  by (simp add: MultilevelSwitchCCSet_deserialize_def MultilevelSwitchCCSet_serialize_def
      MultilevelSwitchCCSet_payload_def Buffer_from_def validatePayload_def)

section \<open>Properties of the interview stages\<close>

text \<open>
  C2 (as amended). The enumeration has nineteen members with the values 0 to 18 in the
  order of the declaration, so the values order it totally and strictly increase along
  the declaration. Of the nine names of the specification, None, ProtocolInfo, NodeInfo, Static,
  Dynamic and Complete are members and increase in this order; CommandClasses, Endpoints
  and Cache are not members.
\<close>

theorem InterviewStage_order:
  "map (\<lambda>s. (InterviewStage_name s, InterviewStage_value s)) InterviewStage_all =
     [(''None'', 0), (''ProtocolInfo'', 1), (''Probe'', 2), (''WakeUp'', 3),
      (''ManufacturerSpecific1'', 4), (''NodeInfo'', 5), (''NodePlusInfo'', 6),
      (''SecurityReport'', 7), (''ManufacturerSpecific2'', 8), (''Versions'', 9),
      (''Instances'', 10), (''Static'', 11), (''CacheLoad'', 12), (''Associations'', 13),
      (''Neighbors'', 14), (''Session'', 15), (''Dynamic'', 16), (''Configuration'', 17),
      (''Complete'', 18)]
   \<and> set InterviewStage_all = UNIV
   \<and> sorted_wrt (<) (map InterviewStage_value InterviewStage_all)
   \<and> (InterviewStage_value a = InterviewStage_value b \<longleftrightarrow> a = b)
   \<and> InterviewStage_value None_stage < InterviewStage_value ProtocolInfo
   \<and> InterviewStage_value ProtocolInfo < InterviewStage_value NodeInfo
   \<and> InterviewStage_value NodeInfo < InterviewStage_value Static
   \<and> InterviewStage_value Static < InterviewStage_value Dynamic
   \<and> InterviewStage_value Dynamic < InterviewStage_value Complete
   \<and> InterviewStage_member ''CommandClasses'' = None
   \<and> InterviewStage_member ''Endpoints'' = None
   \<and> InterviewStage_member ''Cache'' = None"
proof -
  have all: "set InterviewStage_all = UNIV"
  proof -
    have "s \<in> set InterviewStage_all" for s
      by (cases s) (simp_all add: InterviewStage_all_def)
    then show ?thesis by blast
  qed
  have inj: "InterviewStage_value a = InterviewStage_value b \<longleftrightarrow> a = b"
    by (cases a; cases b) simp_all
  show ?thesis
    using all inj
    by (simp add: InterviewStage_all_def InterviewStage_member_def)
qed

text \<open>
  The specification names a stage that the enumeration does not have: no member is called
  CommandClasses.
\<close>

theorem InterviewStage_counterexample:
  "''CommandClasses'' \<notin> set (map InterviewStage_name InterviewStage_all)"
  by (simp add: InterviewStage_all_def)

section \<open>Properties of the value database\<close>

text \<open>
  C7. A set whose payload equals the stored value emits no event, and a set that changes
  the stored value emits one change event. So two successive sets of the same value to
  the same id, the first of which changes the stored value, emit exactly one change event:
  the first call emits it and the second, which finds the value stored, emits none.
\<close>

theorem ValueDB_setValue_twice:
  "(ValueDB_getValue db valueId = Some w \<longrightarrow> snd (ValueDB_setValue db valueId w) = [])
   \<and> (ValueDB_getValue db valueId \<noteq> Some w \<longrightarrow>
        snd (ValueDB_setValue db valueId w) = [Value_changed valueId w])
   \<and> (ValueDB_getValue db valueId \<noteq> Some v \<longrightarrow>
        snd (ValueDB_setValue db valueId v) @
        snd (ValueDB_setValue (fst (ValueDB_setValue db valueId v)) valueId v) =
          [Value_changed valueId v])
   \<and> ValueDB_getValue (fst (ValueDB_setValue db valueId v)) valueId = Some v
   \<and> snd (ValueDB_setValue (fst (ValueDB_setValue db valueId v)) valueId v) = []"
  by (simp add: ValueDB_setValue_def ValueDB_getValue_def)

theorem ValueDB_setValue_twice_witness:
  "snd (ValueDB_setValue Map.empty (currentValue_endpoint 0) (JS_number 80)) @
   snd (ValueDB_setValue (fst (ValueDB_setValue Map.empty (currentValue_endpoint 0)
          (JS_number 80))) (currentValue_endpoint 0) (JS_number 80))
     = [Value_changed (currentValue_endpoint 0) (JS_number 80)]
   \<and> snd (ValueDB_setValue [currentValue_endpoint 0 \<mapsto> JS_number 80]
          (currentValue_endpoint 0) (JS_number 80)) = []"
proof -
  have fresh: "ValueDB_getValue Map.empty (currentValue_endpoint 0) \<noteq> Some (JS_number 80)"
    by (simp add: ValueDB_getValue_def)
  have stored: "ValueDB_getValue [currentValue_endpoint 0 \<mapsto> JS_number 80]
      (currentValue_endpoint 0) = Some (JS_number 80)"
    by (simp add: ValueDB_getValue_def)
  from fresh stored show ?thesis
    using ValueDB_setValue_twice [of Map.empty "currentValue_endpoint 0" "JS_number 80"
        "JS_number 80"]
      ValueDB_setValue_twice [of "[currentValue_endpoint 0 \<mapsto> JS_number 80]"
        "currentValue_endpoint 0" "JS_number 80" "JS_number 80"]
    by blast
qed

section \<open>Properties of SET_VALUE\<close>

lemma SET_VALUE_targetValue:
  "SET_VALUE env (PropertyName ''targetValue'') (JS_number v) duration result =
     setValue_targetValue env v duration result"
  by (simp add: SET_VALUE_def)

lemma SET_VALUE_restorePrevious:
  "SET_VALUE env (PropertyName ''restorePrevious'') v0 duration result =
     setValue_targetValue env 255 duration result"
  by (simp add: SET_VALUE_def)

text \<open>
  C4. A singlecast set of the target value 80 whose result is a supervision result with
  the status Success sends the Set, writes 80 to the current value once and schedules no
  poll; carried out on the value database, the write leaves 80 stored and emits at most
  one change event. For every number, a singlecast set schedules a poll of the current
  value exactly when \<^verbatim>\<open>supervisedCommandSucceeded\<close> denies the result or the value is 255;
  the poll expects the value, or nothing for 255. The callback \<open>onUpdate\<close> is not part
  of the call: the host runs it for a status update that follows a first report.
\<close>

theorem setValue_supervised_success:
  assumes "cast env = Singlecast"
  shows "(valueDB env = Some db \<and> supervisedCommandSucceeded env (Some \<lparr> status = Success \<rparr>) \<longrightarrow>
         SET_VALUE env (PropertyName ''targetValue'') (JS_number 80) duration
           (Some \<lparr> status = Success \<rparr>) =
         ([Send_Set \<lparr> set_targetValue = 80, set_duration = duration \<rparr> True,
           DB_setValue (currentValue_endpoint (endpoint_index env)) (JS_number 80)],
          Inr (Some \<lparr> status = Success \<rparr>))
       \<and> fst (run_DB_effects db (fst (SET_VALUE env (PropertyName ''targetValue'') (JS_number 80)
              duration (Some \<lparr> status = Success \<rparr>))))
          (currentValue_endpoint (endpoint_index env)) = Some (JS_number 80)
       \<and> length (snd (run_DB_effects db (fst (SET_VALUE env (PropertyName ''targetValue'')
              (JS_number 80) duration (Some \<lparr> status = Success \<rparr>))))) \<le> 1)
    \<and> (Schedule_poll (PropertyName ''currentValue'')
            (if v = 255 then None else Some (JS_number v)) duration
          \<in> set (fst (SET_VALUE env (PropertyName ''targetValue'') (JS_number v) duration result))
        \<longleftrightarrow> \<not> supervisedCommandSucceeded env result \<or> v = 255)
    \<and> (\<forall>prop expected d.
          Schedule_poll prop expected d
            \<in> set (fst (SET_VALUE env (PropertyName ''targetValue'') (JS_number v) duration result))
          \<longrightarrow> prop = PropertyName ''currentValue'' \<and> d = duration
              \<and> expected = (if v = 255 then None else Some (JS_number v)))"
proof -
  let ?success = "Some \<lparr> status = Success \<rparr>"
  let ?effects = "[Send_Set \<lparr> set_targetValue = 80, set_duration = duration \<rparr> True,
           DB_setValue (currentValue_endpoint (endpoint_index env)) (JS_number 80)]"
  have run: "SET_VALUE env (PropertyName ''targetValue'') (JS_number 80) duration ?success =
         (?effects, Inr ?success)"
    if "valueDB env = Some db" and "supervisedCommandSucceeded env ?success"
    using assms that
    by (simp add: SET_VALUE_targetValue setValue_targetValue_def isSupervisionResult_def
        tryGetValueDB_setValue_def)
  have stored: "fst (run_DB_effects db ?effects)
          (currentValue_endpoint (endpoint_index env)) = Some (JS_number 80)"
    by (simp add: ValueDB_setValue_def)
  have events: "length (snd (run_DB_effects db ?effects)) \<le> 1"
    by (simp add: ValueDB_setValue_def)
  have poll: "Schedule_poll (PropertyName ''currentValue'')
            (if v = 255 then None else Some (JS_number v)) duration
          \<in> set (fst (SET_VALUE env (PropertyName ''targetValue'') (JS_number v) duration result))
        \<longleftrightarrow> \<not> supervisedCommandSucceeded env result \<or> v = 255"
    using assms
    by (simp add: SET_VALUE_targetValue setValue_targetValue_def tryGetValueDB_setValue_def)
  have only: "\<forall>prop expected d.
          Schedule_poll prop expected d
            \<in> set (fst (SET_VALUE env (PropertyName ''targetValue'') (JS_number v) duration result))
          \<longrightarrow> prop = PropertyName ''currentValue'' \<and> d = duration
              \<and> expected = (if v = 255 then None else Some (JS_number v))"
    using assms
    by (simp add: SET_VALUE_targetValue setValue_targetValue_def tryGetValueDB_setValue_def)
  show ?thesis
    using run stored events poll only by simp
qed

theorem setValue_supervised_success_witness:
  "SET_VALUE
     \<lparr> endpoint_index = 0, cast = Singlecast, disableOptimisticValueUpdate = False,
       valueDB = Some Map.empty, physicalNodes = [],
       supervisedCommandSucceeded = (\<lambda>r. map_option status r = Some Success),
       SwitchType_DownUp = ''Down/Up'', SwitchType_keys = [''2'', ''Down/Up''] \<rparr>
     (PropertyName ''targetValue'') (JS_number 80) (None :: nat option)
     (Some \<lparr> status = Success \<rparr>) =
   ([Send_Set \<lparr> set_targetValue = 80, set_duration = None \<rparr> True,
     DB_setValue (currentValue_endpoint 0) (JS_number 80)],
    Inr (Some \<lparr> status = Success \<rparr>))
   \<and> Schedule_poll (PropertyName ''currentValue'') (Some (JS_number 80)) (None :: nat option)
      \<in> set (fst (SET_VALUE
     \<lparr> endpoint_index = 0, cast = Singlecast, disableOptimisticValueUpdate = False,
       valueDB = Some Map.empty, physicalNodes = [],
       supervisedCommandSucceeded = (\<lambda>r. map_option status r = Some Success),
       SwitchType_DownUp = ''Down/Up'', SwitchType_keys = [''2'', ''Down/Up''] \<rparr>
     (PropertyName ''targetValue'') (JS_number 80) None None))"
proof -
  let ?env = "\<lparr> endpoint_index = 0, cast = Singlecast, disableOptimisticValueUpdate = False,
       valueDB = Some Map.empty, physicalNodes = [],
       supervisedCommandSucceeded = (\<lambda>r. map_option status r = Some Success),
       SwitchType_DownUp = ''Down/Up'', SwitchType_keys = [''2'', ''Down/Up''] \<rparr>"
  have single: "cast ?env = Singlecast" by simp
  note w = setValue_supervised_success [OF single, where db = Map.empty and v = 80
      and duration = "None :: nat option" and result = None]
  have a: "SET_VALUE ?env (PropertyName ''targetValue'') (JS_number 80) (None :: nat option)
     (Some \<lparr> status = Success \<rparr>) =
   ([Send_Set \<lparr> set_targetValue = 80, set_duration = None \<rparr> True,
     DB_setValue (currentValue_endpoint 0) (JS_number 80)],
    Inr (Some \<lparr> status = Success \<rparr>))"
    using w by simp
  have b: "Schedule_poll (PropertyName ''currentValue'') (Some (JS_number 80)) (None :: nat option)
      \<in> set (fst (SET_VALUE ?env (PropertyName ''targetValue'') (JS_number 80) None None))"
    using conjunct1 [OF conjunct2 [OF w]] by simp
  show ?thesis using a b by blast
qed

text \<open>
  C9. Setting the property restorePrevious (to true, or to anything else) is the same call
  as setting targetValue to 255. A singlecast set of 255 sends the Set without asking for
  status updates, writes nothing to the value database and schedules one poll of the
  current value that expects no value. A singlecast set of a number writes the current
  value only when the number is between 0 and 99.
\<close>

theorem restorePrevious_sets_255:
  "SET_VALUE env (PropertyName ''restorePrevious'') (JS_boolean True) duration result =
     SET_VALUE env (PropertyName ''targetValue'') (JS_number 255) duration result
   \<and> (cast env = Singlecast \<longrightarrow>
        SET_VALUE env (PropertyName ''targetValue'') (JS_number 255) duration result =
          ([Send_Set \<lparr> set_targetValue = 255, set_duration = duration \<rparr> False,
            Schedule_poll (PropertyName ''currentValue'') None duration],
           Inr result))
   \<and> (cast env = Singlecast \<longrightarrow>
        (\<forall>valueId x.
           DB_setValue valueId x
             \<in> set (fst (SET_VALUE env (PropertyName ''targetValue'') (JS_number v) duration result))
           \<longrightarrow> 0 \<le> v \<and> v \<le> 99))"
  by (auto simp add: SET_VALUE_targetValue SET_VALUE_restorePrevious setValue_targetValue_def
      tryGetValueDB_setValue_def split: if_splits option.splits)

theorem restorePrevious_sets_255_witness:
  "SET_VALUE
     \<lparr> endpoint_index = 0, cast = Singlecast, disableOptimisticValueUpdate = False,
       valueDB = Some Map.empty, physicalNodes = [],
       supervisedCommandSucceeded = (\<lambda>r. map_option status r = Some Success),
       SwitchType_DownUp = ''Down/Up'', SwitchType_keys = [''2'', ''Down/Up''] \<rparr>
     (PropertyName ''restorePrevious'') (JS_boolean True) (None :: nat option) None =
   ([Send_Set \<lparr> set_targetValue = 255, set_duration = None \<rparr> False,
     Schedule_poll (PropertyName ''currentValue'') None None],
    Inr None)"
  using restorePrevious_sets_255 [of
     "\<lparr> endpoint_index = 0, cast = Singlecast, disableOptimisticValueUpdate = False,
       valueDB = Some Map.empty, physicalNodes = [],
       supervisedCommandSucceeded = (\<lambda>r. map_option status r = Some Success),
       SwitchType_DownUp = ''Down/Up'', SwitchType_keys = [''2'', ''Down/Up''] \<rparr>"
     "None :: nat option" None 255]
  by simp

section \<open>Properties of the level change names\<close>

lemma indexOf_notin: "x \<notin> set xs \<Longrightarrow> indexOf xs x = -1"
  by (induction xs) (auto simp: Let_def)

lemma indexOf_in: "x \<in> set xs \<Longrightarrow> 0 \<le> indexOf xs x"
  by (induction xs) (auto simp: Let_def)

lemma indexOf_gt_iff: "indexOf xs x > -1 \<longleftrightarrow> x \<in> set xs"
proof (cases "x \<in> set xs")
  case True
  with indexOf_in [of x xs] show ?thesis by simp
next
  case False
  with indexOf_notin [of x xs] show ?thesis by simp
qed

lemma indexOf_distinct: "distinct xs \<Longrightarrow> i < length xs \<Longrightarrow> indexOf xs (xs ! i) = int i"
proof (induction xs arbitrary: i)
  case Nil
  then show ?case by simp
next
  case (Cons y ys)
  show ?case
  proof (cases i)
    case 0
    then show ?thesis by simp
  next
    case (Suc j)
    with Cons.prems have j: "j < length ys" and d: "distinct ys" and ne: "y \<noteq> ys ! j"
      by auto
    from Cons.IH [OF d j] Suc ne show ?thesis by (simp add: Let_def)
  qed
qed

lemma js_rem_nat: "js_rem (int i) 2 = int (i mod 2)"
  by (simp add: js_rem_def zmod_int sgn_if)

lemma js_rem_minus_one: "js_rem (-1) 2 = -1"
  by (simp add: js_rem_def)

lemma split_on_nonempty: "split_on sep s \<noteq> []"
  by (induction s) (auto split: list.splits)

lemma split_on_length: "sep \<in> set s \<Longrightarrow> 2 \<le> length (split_on sep s)"
proof (induction s)
  case Nil
  then show ?case by simp
next
  case (Cons c cs)
  show ?case
  proof (cases "c = sep")
    case True
    with split_on_nonempty [of sep cs] show ?thesis
      by (cases "split_on sep cs") simp_all
  next
    case False
    with Cons show ?thesis by (auto split: list.splits)
  qed
qed

lemma switchTypeToActions_length:
  "CHR ''/'' \<in> set key \<Longrightarrow> length (switchTypeToActions downUp key) = 2"
  using split_on_length [of "CHR ''/''" key] by (simp add: switchTypeToActions_def)

lemma foldl_append_concat: "foldl (\<lambda>acc cur. acc @ cur) a xss = a @ concat xss"
  by (induction xss arbitrary: a) simp_all

lemma switchTypeProperties_concat:
  "switchTypeProperties downUp keys =
     concat (map (switchTypeToActions downUp) (filter (\<lambda>key. CHR ''/'' \<in> set key) keys))"
  by (simp add: switchTypeProperties_def foldl_append_concat indexOf_gt_iff)

lemma concat_pairs_length:
  "\<forall>x \<in> set xss. length x = 2 \<Longrightarrow> length (concat xss) = 2 * length xss"
  by (induction xss) simp_all

lemma concat_pairs_nth:
  "\<forall>x \<in> set xss. length x = 2 \<Longrightarrow> i < length xss \<Longrightarrow>
   concat xss ! (2 * i) = xss ! i ! 0 \<and> concat xss ! (2 * i + 1) = xss ! i ! 1"
proof (induction xss arbitrary: i)
  case Nil
  then show ?case by simp
next
  case (Cons x xss)
  from Cons.prems have lx: "length x = 2" by simp
  show ?case
  proof (cases i)
    case 0
    with lx show ?thesis by (simp add: nth_append)
  next
    case (Suc j)
    with Cons.prems have "j < length xss" and "\<forall>x \<in> set xss. length x = 2" by simp_all
    from Cons.IH [OF this(2,1)] Suc lx show ?thesis by (simp add: nth_append)
  qed
qed

lemma switchTypeProperties_layout:
  assumes "ks = filter (\<lambda>key. CHR ''/'' \<in> set key) keys"
  shows "length (switchTypeProperties downUp keys) = 2 * length ks"
    and "i < length ks \<Longrightarrow>
      switchTypeProperties downUp keys ! (2 * i) = switchTypeToActions downUp (ks ! i) ! 0
      \<and> switchTypeProperties downUp keys ! (2 * i + 1) = switchTypeToActions downUp (ks ! i) ! 1"
proof -
  let ?xss = "map (switchTypeToActions downUp) ks"
  have two: "\<forall>x \<in> set ?xss. length x = 2"
    using assms by (auto simp: switchTypeToActions_length)
  show "length (switchTypeProperties downUp keys) = 2 * length ks"
    using concat_pairs_length [OF two] assms by (simp add: switchTypeProperties_concat)
  show "switchTypeProperties downUp keys ! (2 * i) = switchTypeToActions downUp (ks ! i) ! 0
      \<and> switchTypeProperties downUp keys ! (2 * i + 1) = switchTypeToActions downUp (ks ! i) ! 1"
    if "i < length ks"
    using concat_pairs_nth [OF two, of i] that assms by (simp add: switchTypeProperties_concat)
qed

lemma levelChangeUp_is_odd:
  assumes "distinct props"
  shows "levelChangeUp_is props (PropertyName p) \<longleftrightarrow> (\<exists>i < length props. odd i \<and> props ! i = p)"
proof (cases "p \<in> set props")
  case False
  then show ?thesis
    by (auto simp: levelChangeUp_is_def indexOf_notin js_rem_minus_one)
next
  case True
  then obtain j where j: "j < length props" "props ! j = p"
    by (auto simp: in_set_conv_nth)
  have idx: "indexOf props p = int j"
    using indexOf_distinct [OF assms j(1)] j(2) by simp
  have uniq: "i = j" if "i < length props" "props ! i = p" for i
    using that j nth_eq_iff_index_eq [OF assms, of i j] by simp
  have "levelChangeUp_is props (PropertyName p) \<longleftrightarrow> odd j"
    by (simp add: levelChangeUp_is_def idx js_rem_nat odd_iff_mod_2_eq_one)
  with j uniq show ?thesis by blast
qed

lemma levelChangeDown_is_even:
  assumes "distinct props"
  shows "levelChangeDown_is props (PropertyName p) \<longleftrightarrow> (\<exists>i < length props. even i \<and> props ! i = p)"
proof (cases "p \<in> set props")
  case False
  then show ?thesis
    by (auto simp: levelChangeDown_is_def indexOf_notin js_rem_minus_one)
next
  case True
  then obtain j where j: "j < length props" "props ! j = p"
    by (auto simp: in_set_conv_nth)
  have idx: "indexOf props p = int j"
    using indexOf_distinct [OF assms j(1)] j(2) by simp
  have uniq: "i = j" if "i < length props" "props ! i = p" for i
    using that j nth_eq_iff_index_eq [OF assms, of i j] by simp
  have "levelChangeDown_is props (PropertyName p) \<longleftrightarrow> even j"
    by (simp add: levelChangeDown_is_def idx js_rem_nat even_iff_mod_2_eq_zero)
  with j uniq show ?thesis by blast
qed


lemma SET_VALUE_levelChange:
  assumes "p \<in> set (switchTypeProperties (SwitchType_DownUp env) (SwitchType_keys env))"
    and "p \<noteq> ''targetValue''" and "p \<noteq> ''restorePrevious''"
  shows "SET_VALUE env (PropertyName p) (JS_boolean True) duration result =
     setValue_startLevelChange env
       (switchTypeProperties (SwitchType_DownUp env) (SwitchType_keys env)) p duration result"
  using assms by (simp add: SET_VALUE_def Let_def)

text \<open>
  C8. Let \<open>ks\<close> be the keys of SwitchType with a slash and \<open>props\<close> the list
  switchTypeProperties built from them. The list has two names for every key: the first
  action of the \<open>i\<close>-th key (down) at index \<open>2 * i\<close> and its second action (up) at index
  \<open>2 * i + 1\<close>. When no name stands twice in the list, levelChangeUp accepts exactly the
  names at the odd indices and levelChangeDown exactly the names at the even indices
  (and neither a numeric property), and setting the name at index \<open>i\<close> to true starts a
  level change with the direction down for an even \<open>i\<close> and up for an odd one, ignoring
  the start level, which is the stored current value or 0.
\<close>

theorem levelChange_names_by_parity:
  assumes props: "props = switchTypeProperties (SwitchType_DownUp env) (SwitchType_keys env)"
    and ks: "ks = filter (\<lambda>key. indexOf key CHR ''/'' > -1) (SwitchType_keys env)"
    and dist: "distinct props"
  shows "length props = 2 * length ks
    \<and> (\<forall>i < length ks.
          props ! (2 * i) = switchTypeToActions (SwitchType_DownUp env) (ks ! i) ! 0
        \<and> props ! (2 * i + 1) = switchTypeToActions (SwitchType_DownUp env) (ks ! i) ! 1)
    \<and> (levelChangeUp_is props (PropertyName p) \<longleftrightarrow> (\<exists>i < length props. odd i \<and> props ! i = p))
    \<and> (levelChangeDown_is props (PropertyName p) \<longleftrightarrow> (\<exists>i < length props. even i \<and> props ! i = p))
    \<and> \<not> levelChangeUp_is props (PropertyNumber n)
    \<and> \<not> levelChangeDown_is props (PropertyNumber n)
    \<and> (j < length props \<and> props ! j \<noteq> ''targetValue'' \<and> props ! j \<noteq> ''restorePrevious'' \<longrightarrow>
          SET_VALUE env (PropertyName (props ! j)) (JS_boolean True) duration result =
            (case tryGetValueDB_getValue env (currentValue_endpoint (endpoint_index env)) of
               JS_number level \<Rightarrow>
                 ([Send_StartLevelChange
                     \<lparr> slc_duration = duration, slc_startLevel = level,
                       slc_ignoreStartLevel = True,
                       slc_direction = (if even j then down else up) \<rparr>],
                  Inr result)
             | JS_undefined \<Rightarrow>
                 ([Send_StartLevelChange
                     \<lparr> slc_duration = duration, slc_startLevel = 0,
                       slc_ignoreStartLevel = True,
                       slc_direction = (if even j then down else up) \<rparr>],
                  Inr result)
             | _ \<Rightarrow> ([], Inl InvalidArgument)))"
proof -
  have ks': "ks = filter (\<lambda>key. CHR ''/'' \<in> set key) (SwitchType_keys env)"
    using ks by (simp add: indexOf_gt_iff)
  note layout = switchTypeProperties_layout [OF ks', where downUp = "SwitchType_DownUp env"]
  have len: "length props = 2 * length ks"
    using layout(1) props by simp
  have nth: "\<forall>i < length ks.
          props ! (2 * i) = switchTypeToActions (SwitchType_DownUp env) (ks ! i) ! 0
        \<and> props ! (2 * i + 1) = switchTypeToActions (SwitchType_DownUp env) (ks ! i) ! 1"
    using layout(2) props by simp
  have num: "\<not> levelChangeUp_is props (PropertyNumber n)"
    "\<not> levelChangeDown_is props (PropertyNumber n)"
    by (simp_all add: levelChangeUp_is_def levelChangeDown_is_def)
  have start: "SET_VALUE env (PropertyName (props ! j)) (JS_boolean True) duration result =
            (case tryGetValueDB_getValue env (currentValue_endpoint (endpoint_index env)) of
               JS_number level \<Rightarrow>
                 ([Send_StartLevelChange
                     \<lparr> slc_duration = duration, slc_startLevel = level,
                       slc_ignoreStartLevel = True,
                       slc_direction = (if even j then down else up) \<rparr>],
                  Inr result)
             | JS_undefined \<Rightarrow>
                 ([Send_StartLevelChange
                     \<lparr> slc_duration = duration, slc_startLevel = 0,
                       slc_ignoreStartLevel = True,
                       slc_direction = (if even j then down else up) \<rparr>],
                  Inr result)
             | _ \<Rightarrow> ([], Inl InvalidArgument))"
    if j: "j < length props" and ne: "props ! j \<noteq> ''targetValue''" "props ! j \<noteq> ''restorePrevious''"
  proof -
    have mem: "props ! j \<in> set (switchTypeProperties (SwitchType_DownUp env) (SwitchType_keys env))"
      using j props by simp
    have idx: "indexOf props (props ! j) = int j"
      by (rule indexOf_distinct [OF dist j])
    have par: "js_rem (int j) 2 = 0 \<longleftrightarrow> even j"
      by (simp add: js_rem_nat even_iff_mod_2_eq_zero)
    show ?thesis
      unfolding SET_VALUE_levelChange [OF mem ne] props [symmetric]
      by (simp add: setValue_startLevelChange_def idx par Let_def split: js_value.splits)
  qed
  show ?thesis
    using len nth levelChangeUp_is_odd [OF dist, of p] levelChangeDown_is_even [OF dist, of p]
      num start
    by blast
qed


theorem levelChange_names_by_parity_witness:
  "switchTypeProperties ''Down/Up''
     [''0'', ''1'', ''2'', ''3'', ''not supported'', ''Off/On'', ''Down/Up'', ''Close/Open'']
     = [''Off'', ''On'', ''Down'', ''Up'', ''Close'', ''Open'']
   \<and> levelChangeUp_is [''Off'', ''On'', ''Down'', ''Up'', ''Close'', ''Open''] (PropertyName ''Up'')
   \<and> \<not> levelChangeDown_is [''Off'', ''On'', ''Down'', ''Up'', ''Close'', ''Open''] (PropertyName ''Up'')
   \<and> SET_VALUE
       \<lparr> endpoint_index = 0, cast = Singlecast, disableOptimisticValueUpdate = False,
         valueDB = Some [currentValue_endpoint 0 \<mapsto> JS_number 30], physicalNodes = [],
         supervisedCommandSucceeded = (\<lambda>r. map_option status r = Some Success),
         SwitchType_DownUp = ''Down/Up'',
         SwitchType_keys =
           [''0'', ''1'', ''2'', ''3'', ''not supported'', ''Off/On'', ''Down/Up'', ''Close/Open''] \<rparr>
       (PropertyName ''Close'') (JS_boolean True) (None :: nat option) None =
     ([Send_StartLevelChange
         \<lparr> slc_duration = None, slc_startLevel = 30, slc_ignoreStartLevel = True,
           slc_direction = down \<rparr>],
      Inr None)"
proof -
  let ?keys = "[''0'', ''1'', ''2'', ''3'', ''not supported'', ''Off/On'', ''Down/Up'', ''Close/Open'']"
  let ?props = "[''Off'', ''On'', ''Down'', ''Up'', ''Close'', ''Open'']"
  let ?env = "\<lparr> endpoint_index = 0, cast = Singlecast, disableOptimisticValueUpdate = False,
         valueDB = Some [currentValue_endpoint 0 \<mapsto> JS_number 30], physicalNodes = [],
         supervisedCommandSucceeded = (\<lambda>r. map_option status r = Some Success),
         SwitchType_DownUp = ''Down/Up'', SwitchType_keys = ?keys \<rparr>"
  have props: "switchTypeProperties ''Down/Up'' ?keys = ?props"
    by (simp add: switchTypeProperties_def switchTypeToActions_def)
  have p: "?props = switchTypeProperties (SwitchType_DownUp ?env) (SwitchType_keys ?env)"
    using props by simp
  have ks: "[''Off/On'', ''Down/Up'', ''Close/Open'']
      = filter (\<lambda>key. indexOf key CHR ''/'' > -1) (SwitchType_keys ?env)"
    by simp
  have dist: "distinct ?props" by simp
  note w = levelChange_names_by_parity [OF p ks dist, where p = "''Up''" and j = 4
      and duration = "None :: nat option" and result = None]
  have up: "levelChangeUp_is ?props (PropertyName ''Up'')"
  proof -
    have "\<exists>i < length ?props. odd i \<and> ?props ! i = ''Up''"
      by (rule exI [of _ 3]) simp
    with w show ?thesis by blast
  qed
  have down: "\<not> levelChangeDown_is ?props (PropertyName ''Up'')"
  proof -
    have "\<not> (\<exists>i < length ?props. even i \<and> ?props ! i = ''Up'')"
    proof
      assume "\<exists>i < length ?props. even i \<and> ?props ! i = ''Up''"
      then obtain i where i: "i < length ?props" "even i" "?props ! i = ''Up''"
        by blast
      have "?props ! 3 = ''Up''" by simp
      with i(1,3) nth_eq_iff_index_eq [OF dist, of i 3] have "i = 3" by simp
      with i(2) show False by simp
    qed
    with w show ?thesis by blast
  qed
  have start: "SET_VALUE ?env (PropertyName ''Close'') (JS_boolean True) (None :: nat option) None =
     ([Send_StartLevelChange
         \<lparr> slc_duration = None, slc_startLevel = 30, slc_ignoreStartLevel = True,
           slc_direction = down \<rparr>],
      Inr None)"
  proof -
    have "SET_VALUE ?env (PropertyName (?props ! 4)) (JS_boolean True) (None :: nat option) None =
            (case tryGetValueDB_getValue ?env (currentValue_endpoint (endpoint_index ?env)) of
               JS_number level \<Rightarrow>
                 ([Send_StartLevelChange
                     \<lparr> slc_duration = None, slc_startLevel = level,
                       slc_ignoreStartLevel = True,
                       slc_direction = (if even (4::nat) then down else up) \<rparr>],
                  Inr None)
             | JS_undefined \<Rightarrow>
                 ([Send_StartLevelChange
                     \<lparr> slc_duration = None, slc_startLevel = 0,
                       slc_ignoreStartLevel = True,
                       slc_direction = (if even (4::nat) then down else up) \<rparr>],
                  Inr None)
             | _ \<Rightarrow> ([], Inl InvalidArgument))"
      using w by simp
    then show ?thesis
      by (simp add: tryGetValueDB_getValue_def ValueDB_getValue_def)
  qed
  show ?thesis using props up down start by blast
qed

end
